theory Spec2Isabelle
  imports Complex_Main "HOL-Library.Multiset"
begin

section \<open>Numeric substrate\<close>

text \<open>
  The structural module (src/structures/structural_model.py) computes with NumPy
  double-precision numbers.  Finite numbers are modelled as reals, so rounding is
  idealised away; the special values that IEEE arithmetic produces where a real
  has no answer (a division by zero) are kept as values of their own, because
  NumPy returns them instead of raising.
\<close>

datatype error = ValueError | OverflowError | TypeError | IndexError | KeyError string

datatype npfloat = Fin real | NaN | PInf | NInf

text \<open>\<open>x / y\<close> on doubles: a zero divisor gives \<open>nan\<close> or a signed infinity, never an exception.\<close>

definition true_divide :: "real \<Rightarrow> real \<Rightarrow> npfloat" where
  "true_divide x y =
     (if y \<noteq> 0 then Fin (x / y)
      else if x = 0 then NaN
      else if 0 < x then PInf else NInf)"

fun np_ceil :: "npfloat \<Rightarrow> npfloat" where
  "np_ceil (Fin x) = Fin (of_int \<lceil>x\<rceil>)"
| "np_ceil NaN = NaN"
| "np_ceil PInf = PInf"
| "np_ceil NInf = NInf"

fun np_add1 :: "npfloat \<Rightarrow> npfloat" where
  "np_add1 (Fin x) = Fin (x + 1)"
| "np_add1 NaN = NaN"
| "np_add1 PInf = PInf"
| "np_add1 NInf = NInf"

text \<open>Python's \<open>int(x)\<close> truncates towards zero and raises on \<open>nan\<close> and on infinities.\<close>

fun py_int :: "npfloat \<Rightarrow> error + int" where
  "py_int (Fin x) = Inr (if 0 \<le> x then \<lfloor>x\<rfloor> else \<lceil>x\<rceil>)"
| "py_int NaN = Inl ValueError"
| "py_int PInf = Inl OverflowError"
| "py_int NInf = Inl OverflowError"

text \<open>
  \<open>np.linspace(start, stop, num)\<close> with the default \<open>endpoint=True\<close>: a negative
  \<open>num\<close> raises; otherwise \<open>num\<close> samples \<open>start + i * step\<close> with
  \<open>step = (stop - start) / (num - 1)\<close>, the last one overwritten by \<open>stop\<close> when
  \<open>num > 1\<close>.  For \<open>num = 1\<close> the single sample is \<open>start\<close> and no division happens.
\<close>

definition linspace :: "real \<Rightarrow> real \<Rightarrow> int \<Rightarrow> error + real list" where
  "linspace start stop num =
     (if num < 0 then Inl ValueError
      else let n = nat num; delta = stop - start in
        if 1 < n then
          Inr ((map (\<lambda>i. start + real i * (delta / real (n - 1))) [0..<n])[n - 1 := stop])
        else Inr (map (\<lambda>i. start + real i * delta) [0..<n]))"

text \<open>\<open>np.concatenate\<close> refuses an empty sequence of arrays; \<open>np.unique\<close> sorts and removes duplicates.\<close>

definition np_concatenate :: "real list list \<Rightarrow> error + real list" where
  "np_concatenate arrays = (if arrays = [] then Inl ValueError else Inr (concat arrays))"

definition np_unique :: "real list \<Rightarrow> real list" where
  "np_unique xs = sort (remdups xs)"

text \<open>A list comprehension whose elements may raise stops at the first exception.\<close>

fun collect :: "(error + 'a) list \<Rightarrow> error + 'a list" where
  "collect [] = Inr []"
| "collect (Inl e # rs) = Inl e"
| "collect (Inr x # rs) = (case collect rs of Inl e \<Rightarrow> Inl e | Inr xs \<Rightarrow> Inr (x # xs))"

section \<open>Rib positions (calculate_ribs, lines 187 to 197)\<close>

text \<open>
  The quotient \<open>(hi - lo) / max_spacing\<close> is the real quotient.  It is the double
  quotient wherever that one is exact, as for a zero numerator and for the dyadic
  values of the example of stations 0, 1, 2.5; where the doubles round, overflow to
  \<open>inf\<close> or underflow to \<open>0.0\<close> the model does not follow them, and no statement
  below is made about such inputs.
\<close>

definition n_ribs :: "real list \<Rightarrow> real \<Rightarrow> npfloat list" where
  "n_ribs wingspans max_spacing =
     map (\<lambda>(hi, lo). np_ceil (true_divide (hi - lo) max_spacing))
         (zip (tl wingspans) (butlast wingspans))"

definition section_ribs :: "real list \<Rightarrow> real \<Rightarrow> error + real list list" where
  "section_ribs wingspans max_spacing =
     collect (map (\<lambda>(i, n). case py_int (np_add1 n) of
                               Inl e \<Rightarrow> Inl e
                             | Inr num \<Rightarrow> linspace (wingspans ! i) (wingspans ! (i + 1)) num)
                  (enumerate 0 (n_ribs wingspans max_spacing)))"

definition rib_positions :: "real list \<Rightarrow> real \<Rightarrow> error + real list" where
  "rib_positions wingspans max_spacing =
     (case section_ribs wingspans max_spacing of
        Inl e \<Rightarrow> Inl e
      | Inr sections \<Rightarrow>
          (case np_concatenate sections of
             Inl e \<Rightarrow> Inl e
           | Inr positions \<Rightarrow> Inr (np_unique positions)))"

section \<open>Data model\<close>

text \<open>
  The collaborators of the module live in files that are not part of the sources
  (geometry, materials, spar, interpolation, data structures).  Their data is
  modelled as far as the module reads it; their functions are the fields of
  \<open>externals\<close>, so every statement below holds for any implementation of them.
\<close>

type_synonym vec3 = "real \<times> real \<times> real"

type_synonym curve_data = "vec3 list"

record Material =
  density :: real

record GeometricCurve =
  curve_name :: string
  data :: curve_data

datatype SurfaceType = SurfaceType (type_name: string)

record GeometricSurface =
  name :: string
  surface_type :: SurfaceType
  wingspans :: "real list"
  curves :: "GeometricCurve list"
  xx :: "real list"
  yy :: "real list"
  zz :: "real list"


text \<open>
  Modelled from the spec: PointMass (src/aerodynamics/data_structures.py is absent) is a
  value of a mass, coordinates and a provenance tag.  The coordinates of an element
  are a finite 3-vector; those of a composite are whatever the final division returns.
\<close>

record 'c PointMass =
  mass :: real
  coordinates :: 'c
  tag :: string

datatype 'a ndarray = Scalar 'a | Vec3 'a 'a 'a

text \<open>
  Modelled from the spec: StructuralSpar (src/structures/spar.py is absent) is consumed
  as it is and contributes a Point Mass like the other elements.
\<close>

datatype StructuralSpar = StructuralSpar (spar_mass: "vec3 PointMass")

text \<open>
  Values of a configuration dictionary.  The dictionary of one surface maps the keys
  \<open>main_spar\<close>, \<open>secondary_spar\<close>, \<open>ribs\<close>, \<open>surface_coating\<close> (or any other string)
  to values; a value that is itself a dictionary holds keyword arguments.  The
  keywords that this module binds carry a value of the type their parameter is
  annotated with (\<open>material: Material\<close>, \<open>max_spacing: float\<close>, \<open>thickness: float\<close>),
  so a keyword dictionary with a value of another type under one of these names is
  not an input of the model; every other keyword carries an arbitrary value.  A
  keyword dictionary is the list of its entries; of a keyword listed twice the first
  entry counts.
\<close>

typedef other_name = "{s :: string. s \<notin> {''material'', ''max_spacing'', ''thickness''}}"
  morphisms string_of Other_name
  by (rule exI [of _ "[]"]) simp

datatype pyval =
    PNone
  | PBool bool
  | PFloat real
  | PStr string
  | PMaterial Material
  | PDict "keyword list"
and keyword =
    Material_kw Material
  | Max_spacing_kw real
  | Thickness_kw real
  | Other_kw other_name pyval

type_synonym pydict = "(string \<times> pyval) list"

type_synonym kwargs = "keyword list"

fun keyword_name :: "keyword \<Rightarrow> string" where
  "keyword_name (Material_kw m) = ''material''"
| "keyword_name (Max_spacing_kw x) = ''max_spacing''"
| "keyword_name (Thickness_kw x) = ''thickness''"
| "keyword_name (Other_kw n v) = string_of n"

text \<open>The value bound to a keyword, if the keyword is present.\<close>

fun kw_material :: "kwargs \<Rightarrow> Material option" where
  "kw_material [] = None"
| "kw_material (Material_kw m # kw) = Some m"
| "kw_material (k # kw) = kw_material kw"

fun kw_max_spacing :: "kwargs \<Rightarrow> real option" where
  "kw_max_spacing [] = None"
| "kw_max_spacing (Max_spacing_kw x # kw) = Some x"
| "kw_max_spacing (k # kw) = kw_max_spacing kw"

fun kw_thickness :: "kwargs \<Rightarrow> real option" where
  "kw_thickness [] = None"
| "kw_thickness (Thickness_kw x # kw) = Some x"
| "kw_thickness (k # kw) = kw_thickness kw"

fun kw_other :: "string \<Rightarrow> kwargs \<Rightarrow> pyval option" where
  "kw_other key [] = None"
| "kw_other key (Other_kw n v # kw) = (if string_of n = key then Some v else kw_other key kw)"
| "kw_other key (k # kw) = kw_other key kw"

fun truthy :: "pyval \<Rightarrow> bool" where
  "truthy PNone = False"
| "truthy (PBool b) = b"
| "truthy (PFloat x) = (x \<noteq> 0)"
| "truthy (PStr s) = (s \<noteq> [])"
| "truthy (PMaterial m) = True"
| "truthy (PDict kvs) = (kvs \<noteq> [])"

text \<open>\<open>d.get(key)\<close>: the value, or \<open>None\<close> for an absent key.\<close>

definition dict_get :: "pydict \<Rightarrow> string \<Rightarrow> pyval" where
  "dict_get d k = (case map_of d k of None \<Rightarrow> PNone | Some v \<Rightarrow> v)"

text \<open>\<open>f(**v)\<close> needs a mapping.\<close>

fun unpack :: "pyval \<Rightarrow> error + kwargs" where
  "unpack (PDict kvs) = Inr kvs"
| "unpack v = Inl TypeError"

record externals =
  curve_area :: "curve_data \<Rightarrow> real"
  curve_centroid :: "curve_data \<Rightarrow> vec3"
  surface_centroid_area :: "real list \<Rightarrow> real list \<Rightarrow> real list \<Rightarrow> vec3 \<times> real"
  vector_interpolation :: "real list \<Rightarrow> real list \<Rightarrow> curve_data list \<Rightarrow> curve_data list"
  create_main_spar :: "GeometricSurface \<Rightarrow> kwargs \<Rightarrow> error + StructuralSpar"
  create_spar :: "GeometricSurface \<Rightarrow> kwargs \<Rightarrow> error + StructuralSpar"

section \<open>Structural elements\<close>

record StructuralRib =
  curve :: GeometricCurve
  rib_thickness :: real
  rib_material :: Material

definition rib_area :: "externals \<Rightarrow> StructuralRib \<Rightarrow> real" where
  "rib_area ext r = curve_area ext (data (curve r))"

definition rib_centroid :: "externals \<Rightarrow> StructuralRib \<Rightarrow> vec3" where
  "rib_centroid ext r = curve_centroid ext (data (curve r))"

definition rib_mass :: "externals \<Rightarrow> StructuralRib \<Rightarrow> vec3 PointMass" where
  "rib_mass ext r =
     \<lparr>mass = rib_area ext r * rib_thickness r * density (rib_material r),
      coordinates = rib_centroid ext r,
      tag = ''Rib''\<rparr>"

text \<open>
  A coating carries the slot that \<open>cached_property\<close> fills in the instance, and a
  counter of how often the body of \<open>_centroid_area\<close> has run.
\<close>

record SurfaceCoating =
  coating_surface :: GeometricSurface
  coating_thickness :: real
  coating_material :: Material
  centroid_area_cache :: "(vec3 \<times> real) option"
  evaluations :: nat

definition SurfaceCoating_init :: "GeometricSurface \<Rightarrow> real \<Rightarrow> Material \<Rightarrow> SurfaceCoating" where
  "SurfaceCoating_init s t m =
     \<lparr>coating_surface = s, coating_thickness = t, coating_material = m,
      centroid_area_cache = None, evaluations = 0\<rparr>"

definition centroid_area :: "externals \<Rightarrow> SurfaceCoating \<Rightarrow> (vec3 \<times> real) \<times> SurfaceCoating" where
  "centroid_area ext c =
     (case centroid_area_cache c of
        Some v \<Rightarrow> (v, c)
      | None \<Rightarrow>
          (let s = coating_surface c;
               v = surface_centroid_area ext (xx s) (yy s) (zz s)
           in (v, c\<lparr>centroid_area_cache := Some v, evaluations := evaluations c + 1\<rparr>)))"

definition coating_centroid :: "externals \<Rightarrow> SurfaceCoating \<Rightarrow> vec3 \<times> SurfaceCoating" where
  "coating_centroid ext c = (case centroid_area ext c of ((centroid, _), c') \<Rightarrow> (centroid, c'))"

definition coating_area :: "externals \<Rightarrow> SurfaceCoating \<Rightarrow> real \<times> SurfaceCoating" where
  "coating_area ext c = (case centroid_area ext c of ((_, area), c') \<Rightarrow> (area, c'))"

definition coating_mass :: "externals \<Rightarrow> SurfaceCoating \<Rightarrow> vec3 PointMass \<times> SurfaceCoating" where
  "coating_mass ext c =
     (case coating_area ext c of (area, c1) \<Rightarrow>
      case coating_centroid ext c1 of (centroid, c2) \<Rightarrow>
        (\<lparr>mass = area * coating_thickness c * density (coating_material c),
          coordinates = centroid,
          tag = ''SurfaceCoating''\<rparr>, c2))"

section \<open>Surface structure\<close>

record SurfaceStructure =
  surface :: GeometricSurface
  spars :: "StructuralSpar list"
  ribs :: "StructuralRib list"
  coatings :: "SurfaceCoating list"
  config :: pydict

definition SurfaceStructure_init :: "GeometricSurface \<Rightarrow> pydict \<Rightarrow> SurfaceStructure" where
  "SurfaceStructure_init s c = \<lparr>surface = s, spars = [], ribs = [], coatings = [], config = c\<rparr>"

definition add_spar :: "SurfaceStructure \<Rightarrow> StructuralSpar \<Rightarrow> SurfaceStructure" where
  "add_spar st spar = st\<lparr>spars := spars st @ [spar]\<rparr>"

definition add_rib :: "SurfaceStructure \<Rightarrow> StructuralRib \<Rightarrow> SurfaceStructure" where
  "add_rib st rib = st\<lparr>ribs := ribs st @ [rib]\<rparr>"

definition add_coating :: "SurfaceStructure \<Rightarrow> SurfaceCoating \<Rightarrow> SurfaceStructure" where
  "add_coating st coating = st\<lparr>coatings := coatings st @ [coating]\<rparr>"

subsection \<open>Keyword arguments\<close>

text \<open>
  Binding \<open>**kw\<close> to a signature raises TypeError for a keyword the callee does not
  take (or already received positionally) and for a required one that is missing.
\<close>

definition accepts :: "string list \<Rightarrow> kwargs \<Rightarrow> bool" where
  "accepts parameters kw = list_all (\<lambda>k. keyword_name k \<in> set parameters) kw"

subsection \<open>calculate_ribs\<close>

fun str_nat :: "nat \<Rightarrow> string" where
  "str_nat n = (if n < 10 then [''0123456789'' ! n]
                else str_nat (n div 10) @ [''0123456789'' ! (n mod 10)])"

declare str_nat.simps [simp del]

text \<open>The default thickness, \<open>3 / 16 * 2.54 / 100\<close>.\<close>

definition default_thickness :: real where
  "default_thickness = 3 / 16 * (254 / 100) / 100"

text \<open>One rib per interpolated curve; \<open>surface.surface_type.name[0]\<close> needs a non-empty name.\<close>

definition make_rib :: "GeometricSurface \<Rightarrow> Material \<Rightarrow> real \<Rightarrow> nat \<times> curve_data \<Rightarrow> error + StructuralRib" where
  "make_rib s material thickness ic =
     (case type_name (surface_type s) of
        [] \<Rightarrow> Inl IndexError
      | c # _ \<Rightarrow>
          Inr \<lparr>curve = \<lparr>curve_name = c # ''_rib_'' @ str_nat (fst ic), data = snd ic\<rparr>,
               rib_thickness = thickness,
               rib_material = material\<rparr>)"

definition calculate_ribs ::
  "externals \<Rightarrow> GeometricSurface \<Rightarrow> Material \<Rightarrow> real \<Rightarrow> real \<Rightarrow> error + StructuralRib list" where
  "calculate_ribs ext s material max_spacing thickness =
     (case rib_positions (wingspans s) max_spacing of
        Inl e \<Rightarrow> Inl e
      | Inr positions \<Rightarrow>
          (let section_curves = map data (curves s);
               ribs_geometry = vector_interpolation ext positions (wingspans s) section_curves
           in collect (map (make_rib s material thickness) (enumerate 0 ribs_geometry))))"

text \<open>\<open>calculate_ribs(surface, **rib_config)\<close>.\<close>

definition calculate_ribs_kw :: "externals \<Rightarrow> GeometricSurface \<Rightarrow> kwargs \<Rightarrow> error + StructuralRib list" where
  "calculate_ribs_kw ext s kw =
     (if \<not> accepts [''material'', ''max_spacing'', ''thickness''] kw then Inl TypeError
      else case kw_material kw of None \<Rightarrow> Inl TypeError | Some material \<Rightarrow>
           case kw_max_spacing kw of None \<Rightarrow> Inl TypeError | Some max_spacing \<Rightarrow>
             calculate_ribs ext s material max_spacing
               (case kw_thickness kw of None \<Rightarrow> default_thickness | Some thickness \<Rightarrow> thickness))"

text \<open>\<open>SurfaceCoating(surface, **coating_config)\<close>: the constructor stores its arguments.\<close>

definition SurfaceCoating_kw :: "GeometricSurface \<Rightarrow> kwargs \<Rightarrow> error + SurfaceCoating" where
  "SurfaceCoating_kw s kw =
     (if \<not> accepts [''thickness'', ''material''] kw then Inl TypeError
      else case kw_thickness kw of None \<Rightarrow> Inl TypeError | Some thickness \<Rightarrow>
           case kw_material kw of None \<Rightarrow> Inl TypeError | Some material \<Rightarrow>
             Inr (SurfaceCoating_init s thickness material))"

subsection \<open>initialize_structure\<close>

definition init_main_spar :: "externals \<Rightarrow> SurfaceStructure \<Rightarrow> error + SurfaceStructure" where
  "init_main_spar ext st =
     (let main_spar_config = dict_get (config st) ''main_spar'' in
      if truthy main_spar_config then
        (case unpack main_spar_config of Inl e \<Rightarrow> Inl e | Inr kw \<Rightarrow>
         case create_main_spar ext (surface st) kw of Inl e \<Rightarrow> Inl e | Inr spar \<Rightarrow>
           Inr (add_spar st spar))
      else Inr st)"

definition init_secondary_spar :: "externals \<Rightarrow> SurfaceStructure \<Rightarrow> error + SurfaceStructure" where
  "init_secondary_spar ext st =
     (let secondary_spar_config = dict_get (config st) ''secondary_spar'' in
      if truthy secondary_spar_config then
        (case unpack secondary_spar_config of Inl e \<Rightarrow> Inl e | Inr kw \<Rightarrow>
         case create_spar ext (surface st) kw of Inl e \<Rightarrow> Inl e | Inr spar \<Rightarrow>
           Inr (add_spar st spar))
      else Inr st)"

definition init_ribs :: "externals \<Rightarrow> SurfaceStructure \<Rightarrow> error + SurfaceStructure" where
  "init_ribs ext st =
     (let rib_config = dict_get (config st) ''ribs'' in
      if truthy rib_config then
        (case unpack rib_config of Inl e \<Rightarrow> Inl e | Inr kw \<Rightarrow>
         case calculate_ribs_kw ext (surface st) kw of Inl e \<Rightarrow> Inl e | Inr calculated_ribs \<Rightarrow>
           Inr (foldl add_rib st calculated_ribs))
      else Inr st)"

definition init_coating :: "SurfaceStructure \<Rightarrow> error + SurfaceStructure" where
  "init_coating st =
     (let coating_config = dict_get (config st) ''surface_coating'' in
      if truthy coating_config then
        (case unpack coating_config of Inl e \<Rightarrow> Inl e | Inr kw \<Rightarrow>
         case SurfaceCoating_kw (surface st) kw of Inl e \<Rightarrow> Inl e | Inr coating \<Rightarrow>
           Inr (add_coating st coating))
      else Inr st)"

definition initialize_structure :: "externals \<Rightarrow> SurfaceStructure \<Rightarrow> error + SurfaceStructure" where
  "initialize_structure ext st =
     (case init_main_spar ext st of Inl e \<Rightarrow> Inl e | Inr st1 \<Rightarrow>
      case init_secondary_spar ext st1 of Inl e \<Rightarrow> Inl e | Inr st2 \<Rightarrow>
      case init_ribs ext st2 of Inl e \<Rightarrow> Inl e | Inr st3 \<Rightarrow>
        init_coating st3)"

subsection \<open>Mass aggregation\<close>

text \<open>
  Reading the mass of a coating fills its cache, so collecting the masses returns
  the structure with the coatings as the reads left them.
\<close>

fun coatings_masses :: "externals \<Rightarrow> SurfaceCoating list \<Rightarrow> vec3 PointMass list \<times> SurfaceCoating list" where
  "coatings_masses ext [] = ([], [])"
| "coatings_masses ext (c # cs) =
     (case coating_mass ext c of (pm, c') \<Rightarrow>
      case coatings_masses ext cs of (pms, cs') \<Rightarrow> (pm # pms, c' # cs'))"

definition collect_masses :: "externals \<Rightarrow> SurfaceStructure \<Rightarrow> vec3 PointMass list \<times> SurfaceStructure" where
  "collect_masses ext st =
     (case coatings_masses ext (coatings st) of (pms, cs') \<Rightarrow>
        (map spar_mass (spars st) @ map (rib_mass ext) (ribs st) @ pms,
         st\<lparr>coatings := cs'\<rparr>))"

definition scale :: "real \<Rightarrow> vec3 \<Rightarrow> vec3" where
  "scale m v = (case v of (x, y, z) \<Rightarrow> (m * x, m * y, m * z))"

text \<open>
  \<open>np.sum(np.array(rows), axis=0)\<close>: an empty list is an array of shape \<open>(0,)\<close> whose sum
  is the scalar \<open>0.0\<close>; otherwise the rows are added component by component.
\<close>

definition np_sum_axis0 :: "vec3 list \<Rightarrow> real ndarray" where
  "np_sum_axis0 rows =
     (if rows = [] then Scalar 0
      else Vec3 (sum_list (map fst rows))
                (sum_list (map (fst \<circ> snd) rows))
                (sum_list (map (snd \<circ> snd) rows)))"

definition structure_mass ::
  "externals \<Rightarrow> SurfaceStructure \<Rightarrow> npfloat ndarray PointMass \<times> SurfaceStructure" where
  "structure_mass ext st =
     (case collect_masses ext st of (pms1, st1) \<Rightarrow>
      case collect_masses ext st1 of (pms2, st2) \<Rightarrow>
        (let weighted_coordinates =
               np_sum_axis0 (map (\<lambda>point_mass. scale (mass point_mass) (coordinates point_mass)) pms1);
             total_mass = foldl (+) 0 (map mass pms2);
             coords = map_ndarray (\<lambda>x. true_divide x total_mass) weighted_coordinates
         in (\<lparr>mass = total_mass, coordinates = coords, tag = name (surface st)\<rparr>, st2)))"

section \<open>Structural model\<close>




section \<open>Auxiliary definitions\<close>

text \<open>The consecutive pairs of stations, and the samples of one interval.\<close>

fun intervals :: "real list \<Rightarrow> (real \<times> real) list" where
  "intervals (a # b # ws) = (a, b) # intervals (b # ws)"
| "intervals ws = []"

definition interval_ribs :: "real \<Rightarrow> real \<Rightarrow> real \<Rightarrow> error + real list" where
  "interval_ribs lo hi max_spacing =
     (case py_int (np_add1 (np_ceil (true_divide (hi - lo) max_spacing))) of
        Inl e \<Rightarrow> Inl e
      | Inr num \<Rightarrow> linspace lo hi num)"

text \<open>
  Modelled from the spec: vector_interpolation (src/utils/interpolation.py is absent).
  Section 4.1 step 4: for each rib position a full curve is interpolated as a weighted
  blend between the two bracketing section curves, point by point, every point with the
  same interpolation fraction.  The spec is silent on fewer than two stations; there
  the only section curve (or no curve) is returned.
\<close>

definition blend :: "real \<Rightarrow> curve_data \<Rightarrow> curve_data \<Rightarrow> curve_data" where
  "blend f c0 c1 =
     map (\<lambda>((x0, y0, z0), (x1, y1, z1)).
            (x0 + f * (x1 - x0), y0 + f * (y1 - y0), z0 + f * (z1 - z0)))
         (zip c0 c1)"

fun interpolate_at :: "real list \<Rightarrow> curve_data list \<Rightarrow> real \<Rightarrow> curve_data" where
  "interpolate_at (w0 # w1 # ws) (c0 # c1 # cs) p =
     (if p \<le> w1 \<or> ws = [] \<or> cs = [] then blend ((p - w0) / (w1 - w0)) c0 c1
      else interpolate_at (w1 # ws) (c1 # cs) p)"
| "interpolate_at ws (c # cs) p = c"
| "interpolate_at ws [] p = []"

definition vector_interpolation_spec :: "real list \<Rightarrow> real list \<Rightarrow> curve_data list \<Rightarrow> curve_data list" where
  "vector_interpolation_spec positions stations section_curves =
     map (interpolate_at stations section_curves) positions"

text \<open>
  A sample implementation of the collaborators, to run the model on concrete inputs:
  interpolation as above, a unit area for every curve, the first vertex as its
  centroid, a fixed centroid and area for a mesh, and spar factories that accept
  exactly the keyword \<open>mass\<close>.
\<close>

definition sample_spar :: "GeometricSurface \<Rightarrow> kwargs \<Rightarrow> error + StructuralSpar" where
  "sample_spar s kw =
     (if \<not> accepts [''mass''] kw then Inl TypeError
      else case kw_other ''mass'' kw of
             Some (PFloat m) \<Rightarrow>
               Inr (StructuralSpar \<lparr>mass = m, coordinates = (0, 0, 0), tag = ''Spar''\<rparr>)
           | _ \<Rightarrow> Inl TypeError)"

definition sample_externals :: externals where
  "sample_externals =
     \<lparr>curve_area = (\<lambda>c. 1),
      curve_centroid = (\<lambda>c. case c of [] \<Rightarrow> (0, 0, 0) | p # _ \<Rightarrow> p),
      surface_centroid_area = (\<lambda>xs ys zs. ((1, 2, 3), 4)),
      vector_interpolation = vector_interpolation_spec,
      create_main_spar = sample_spar,
      create_spar = sample_spar\<rparr>"

definition sample_surface :: "real list \<Rightarrow> GeometricSurface" where
  "sample_surface stations =
     \<lparr>name = ''wing'', surface_type = SurfaceType ''MAIN'', wingspans = stations,
      curves = map (\<lambda>w. \<lparr>curve_name = ''section'', data = [(0, w, 0), (1, w, 0)]\<rparr>) stations,
      xx = [0, 1, 0], yy = [0, 0, 1], zz = [0, 0, 0]\<rparr>"

text \<open>
  Reads of a coating from outside: \<open>coating.centroid\<close>, \<open>coating.area\<close> and
  \<open>coating.mass\<close>, each returning what was read and the coating as the read left it.
\<close>

datatype coating_read = ReadCentroid | ReadArea | ReadMass

datatype observation = Centroid vec3 | Area real | Mass "vec3 PointMass"

fun read_coating :: "externals \<Rightarrow> SurfaceCoating \<Rightarrow> coating_read \<Rightarrow> observation \<times> SurfaceCoating" where
  "read_coating ext c ReadCentroid = (case coating_centroid ext c of (v, c') \<Rightarrow> (Centroid v, c'))"
| "read_coating ext c ReadArea = (case coating_area ext c of (a, c') \<Rightarrow> (Area a, c'))"
| "read_coating ext c ReadMass = (case coating_mass ext c of (pm, c') \<Rightarrow> (Mass pm, c'))"

fun read_all :: "externals \<Rightarrow> SurfaceCoating \<Rightarrow> coating_read list \<Rightarrow> observation list \<times> SurfaceCoating" where
  "read_all ext c [] = ([], c)"
| "read_all ext c (r # rs) =
     (case read_coating ext c r of (ob, c') \<Rightarrow>
      case read_all ext c' rs of (obs, c'') \<Rightarrow> (ob # obs, c''))"

text \<open>What a read returns once the pair \<open>v\<close> of centroid and area is known.\<close>

fun view :: "vec3 \<times> real \<Rightarrow> real \<Rightarrow> Material \<Rightarrow> coating_read \<Rightarrow> observation" where
  "view v t m ReadCentroid = Centroid (fst v)"
| "view v t m ReadArea = Area (snd v)"
| "view v t m ReadMass =
     Mass \<lparr>mass = snd v * t * density m, coordinates = fst v, tag = ''SurfaceCoating''\<rparr>"


text \<open>A structure of two spars, of masses 1 and 3.\<close>

definition two_spars :: SurfaceStructure where
  "two_spars =
     \<lparr>surface = sample_surface [0, 1],
      spars = [StructuralSpar \<lparr>mass = 1, coordinates = (0, 0, 0), tag = ''Spar''\<rparr>,
               StructuralSpar \<lparr>mass = 3, coordinates = (4, 0, 8), tag = ''Spar''\<rparr>],
      ribs = [], coatings = [], config = []\<rparr>"


section \<open>Rib positions: properties\<close>

subsection \<open>Auxiliary facts\<close>




lemma collect_append:
  "collect (rs1 @ rs2) =
     (case collect rs1 of Inl e \<Rightarrow> Inl e
      | Inr xs1 \<Rightarrow> (case collect rs2 of Inl e \<Rightarrow> Inl e | Inr xs2 \<Rightarrow> Inr (xs1 @ xs2)))"
  by (induction rs1 rule: collect.induct) (auto split: sum.splits)

lemma zip_intervals: "zip (butlast ws) (tl ws) = intervals ws"
  by (induction ws rule: intervals.induct) auto

lemma section_ribs_intervals:
  "section_ribs ws ms = collect (map (\<lambda>(lo, hi). interval_ribs lo hi ms) (intervals ws))"
proof -
  have len: "length (zip (tl ws) (butlast ws)) = length ws - 1" by simp
  have "map (\<lambda>(i, n). case py_int (np_add1 n) of Inl e \<Rightarrow> Inl e
                        | Inr num \<Rightarrow> linspace (ws ! i) (ws ! (i + 1)) num)
            (enumerate 0 (n_ribs ws ms))
        = map (\<lambda>(lo, hi). interval_ribs lo hi ms) (zip (butlast ws) (tl ws))"
    by (rule nth_equalityI)
       (simp_all add: n_ribs_def nth_enumerate_eq nth_tl nth_butlast interval_ribs_def
          cong: sum.case_cong)
  then show ?thesis by (simp add: section_ribs_def zip_intervals)
qed

lemma intervals_append:
  "intervals (xs @ a # ys) = intervals (xs @ [a]) @ intervals (a # ys)"
  by (induction xs rule: intervals.induct) auto

lemma np_unique_cong: "set xs = set ys \<Longrightarrow> np_unique xs = np_unique ys"
  unfolding np_unique_def
  by (metis sorted_list_of_set_sort_remdups)

lemma interval_ribs_degenerate: "ms \<noteq> 0 \<Longrightarrow> interval_ribs a a ms = Inr [a]"
  by (simp add: interval_ribs_def true_divide_def linspace_def)

subsection \<open>A single station\<close>

lemma rib_positions_single: "length ws = 1 \<Longrightarrow> rib_positions ws ms = Inl ValueError"
  by (cases ws) (simp_all add: rib_positions_def section_ribs_intervals np_concatenate_def)

text \<open>
  C4, as amended: for a surface with exactly one station, \<open>calculate_ribs\<close> builds no
  rib: it raises the ValueError of \<open>np.concatenate\<close> on an empty sequence, whatever the
  material, spacing, thickness and collaborators.
\<close>

theorem calculate_ribs_single_station:
  "length (wingspans s) = 1 \<Longrightarrow> calculate_ribs ext s material max_spacing thickness = Inl ValueError"
  by (simp add: calculate_ribs_def rib_positions_single)

theorem calculate_ribs_single_station_witness:
  "length (wingspans (sample_surface [3])) = 1 \<and>
   calculate_ribs sample_externals (sample_surface [3]) \<lparr>density = 100\<rparr> 1 default_thickness
     = Inl ValueError"
  using calculate_ribs_single_station [of "sample_surface [3]" sample_externals "\<lparr>density = 100\<rparr>" 1 default_thickness]
  by (simp add: sample_surface_def)

text \<open>C4 as stated (zero ribs, no failure) does not hold on a one-station surface.\<close>

theorem one_station_raises:
  "calculate_ribs sample_externals (sample_surface [0]) \<lparr>density = 100\<rparr> 1 default_thickness
     = Inl ValueError"
  by (simp add: calculate_ribs_def rib_positions_def section_ribs_def n_ribs_def np_concatenate_def sample_surface_def)

subsection \<open>Two identical consecutive stations\<close>

text \<open>
  C9: for a non-zero \<open>max_spacing\<close>, an interval between two identical stations has
  the finite count \<open>n = 0\<close> and the single sample \<open>a\<close>; in any list of stations the
  doubled station changes neither whether an error is raised nor which one, and the
  positions are those of the list without the repetition together with \<open>a\<close> itself.
\<close>

theorem duplicate_station:
  assumes "ms \<noteq> 0"
  shows "n_ribs [a, a] ms = [Fin 0] \<and>
         section_ribs [a, a] ms = Inr [[a]] \<and>
         rib_positions (xs @ a # a # ys) ms =
           (case section_ribs (xs @ a # ys) ms of
              Inl e \<Rightarrow> Inl e
            | Inr sections \<Rightarrow> Inr (np_unique (a # concat sections)))"
proof -
  let ?f = "\<lambda>(lo, hi). interval_ribs lo hi ms"
  have n: "n_ribs [a, a] ms = [Fin 0]"
    using assms by (simp add: n_ribs_def true_divide_def)
  have s: "section_ribs [a, a] ms = Inr [[a]]"
    using assms by (simp add: section_ribs_intervals interval_ribs_degenerate)
  have i1: "intervals (xs @ a # a # ys) = intervals (xs @ [a]) @ (a, a) # intervals (a # ys)"
    using intervals_append [of xs a "a # ys"] by simp
  have i2: "intervals (xs @ a # ys) = intervals (xs @ [a]) @ intervals (a # ys)"
    by (rule intervals_append)
  have u: "np_unique (concat (s1 @ [a] # s2)) = np_unique (a # concat (s1 @ s2))" for s1 s2
    by (rule np_unique_cong) auto
  have "rib_positions (xs @ a # a # ys) ms =
           (case section_ribs (xs @ a # ys) ms of
              Inl e \<Rightarrow> Inl e
            | Inr sections \<Rightarrow> Inr (np_unique (a # concat sections)))"
    using assms u
    by (simp add: rib_positions_def section_ribs_intervals i1 i2 collect_append
          interval_ribs_degenerate np_concatenate_def split: sum.splits)
  with n s show ?thesis by simp
qed

theorem duplicate_station_witness:
  "(1::real) \<noteq> 0 \<and> n_ribs [1, 1] 1 = [Fin 0] \<and> section_ribs [1, 1] 1 = Inr [[1]] \<and>
   rib_positions ([0] @ 1 # 1 # [5 / 2]) 1 = Inr [0, 1, 7 / 4, 5 / 2]"
  using duplicate_station [of 1 1 "[0]" "[5 / 2]"]
  by (simp add: section_ribs_def n_ribs_def true_divide_def linspace_def np_unique_def enumerate_eq_zip upt_rec)

subsection \<open>The example of stations 0, 1, 2.5 with spacing 1\<close>

text \<open>C1 as stated puts a rib at 0.5 and counts five; the code computes other positions.\<close>

theorem example_positions_differ:
  "rib_positions [0, 1, 5 / 2] 1 \<noteq> Inr [0, 1 / 2, 1, 7 / 4, 5 / 2]"
  by (simp add: rib_positions_def section_ribs_def n_ribs_def true_divide_def linspace_def
        np_concatenate_def np_unique_def enumerate_eq_zip upt_rec)

lemma collect_make_rib:
  "type_name (surface_type s) \<noteq> [] \<Longrightarrow>
   \<exists>rs. collect (map (make_rib s m t) ics) = Inr rs \<and> length rs = length ics"
  by (induction ics) (auto simp: make_rib_def split: list.splits)

text \<open>
  C1, as amended: for the stations 0, 1, 2.5 and \<open>max_spacing = 1\<close> the rib positions are
  exactly 0, 1, 1.75, 2.5 (one sub-interval from 0 to 1, two from 1 to 2.5), and
  \<open>calculate_ribs\<close> returns exactly four ribs whenever the interpolation returns one
  curve for each of the four positions.
\<close>

theorem example_ribs:
  "rib_positions [0, 1, 5 / 2] 1 = Inr [0, 1, 7 / 4, 5 / 2] \<and>
   (wingspans s = [0, 1, 5 / 2] \<and> type_name (surface_type s) \<noteq> [] \<and>
    length (vector_interpolation ext [0, 1, 7 / 4, 5 / 2] [0, 1, 5 / 2] (map data (curves s))) = 4
    \<longrightarrow> (\<exists>rs. calculate_ribs ext s m 1 t = Inr rs \<and> length rs = 4))"
proof -
  have p: "rib_positions [0, 1, 5 / 2] 1 = Inr [0, 1, 7 / 4, 5 / 2]"
    by (simp add: rib_positions_def section_ribs_def n_ribs_def true_divide_def linspace_def
        np_concatenate_def np_unique_def enumerate_eq_zip upt_rec)
  have "\<exists>rs. calculate_ribs ext s m 1 t = Inr rs \<and> length rs = 4"
    if w: "wingspans s = [0, 1, 5 / 2]" and nm: "type_name (surface_type s) \<noteq> []"
      and len: "length (vector_interpolation ext [0, 1, 7 / 4, 5 / 2] [0, 1, 5 / 2]
                  (map data (curves s))) = 4"
  proof -
    let ?g = "vector_interpolation ext [0, 1, 7 / 4, 5 / 2] [0, 1, 5 / 2] (map data (curves s))"
    obtain rs where "collect (map (make_rib s m t) (enumerate 0 ?g)) = Inr rs"
      "length rs = length (enumerate 0 ?g)"
      using collect_make_rib [OF nm] by blast
    then show ?thesis using len by (simp add: calculate_ribs_def w p)
  qed
  with p show ?thesis by blast
qed

theorem example_ribs_witness:
  "wingspans (sample_surface [0, 1, 5 / 2]) = [0, 1, 5 / 2] \<and>
   type_name (surface_type (sample_surface [0, 1, 5 / 2])) \<noteq> [] \<and>
   length (vector_interpolation sample_externals [0, 1, 7 / 4, 5 / 2] [0, 1, 5 / 2]
             (map data (curves (sample_surface [0, 1, 5 / 2])))) = 4 \<and>
   (\<exists>rs. calculate_ribs sample_externals (sample_surface [0, 1, 5 / 2]) \<lparr>density = 100\<rparr> 1
            default_thickness = Inr rs \<and> length rs = 4)"
  using example_ribs [of "sample_surface [0, 1, 5 / 2]" sample_externals "\<lparr>density = 100\<rparr>" default_thickness]
  by (simp add: sample_surface_def sample_externals_def vector_interpolation_spec_def)

section \<open>Mass aggregation: properties\<close>

subsection \<open>The cache of a coating and the two passes over the elements\<close>

lemma centroid_area_fills:
  "centroid_area_cache (snd (centroid_area ext c)) = Some (fst (centroid_area ext c))"
  by (cases "centroid_area_cache c") (simp_all add: centroid_area_def Let_def)

lemma centroid_area_cached:
  "centroid_area_cache c = Some v \<Longrightarrow> centroid_area ext c = (v, c)"
  by (simp add: centroid_area_def)

lemma centroid_area_fields:
  "coating_thickness (snd (centroid_area ext c)) = coating_thickness c"
  "coating_material (snd (centroid_area ext c)) = coating_material c"
  by (cases "centroid_area_cache c"; simp add: centroid_area_def Let_def)+

lemma coating_mass_eq:
  "coating_mass ext c =
     (\<lparr>mass = snd (fst (centroid_area ext c)) * coating_thickness c * density (coating_material c),
       coordinates = fst (fst (centroid_area ext c)),
       tag = ''SurfaceCoating''\<rparr>, snd (centroid_area ext c))"
proof -
  obtain v c1 where ca: "centroid_area ext c = (v, c1)" by (cases "centroid_area ext c")
  have "centroid_area_cache c1 = Some v" using centroid_area_fills [of ext c] ca by simp
  then have "centroid_area ext c1 = (v, c1)" by (rule centroid_area_cached)
  then show ?thesis
    by (simp add: coating_mass_def coating_area_def coating_centroid_def ca split: prod.splits)
qed

lemma centroid_area_again:
  "centroid_area ext (snd (centroid_area ext c)) = centroid_area ext c"
  using centroid_area_cached [OF centroid_area_fills, of ext ext c] by simp

lemma coating_mass_again:
  "coating_mass ext (snd (coating_mass ext c)) = coating_mass ext c"
  by (simp add: coating_mass_eq centroid_area_again centroid_area_fields)

lemma coatings_masses_fst:
  "fst (coatings_masses ext cs) = map (\<lambda>c. fst (coating_mass ext c)) cs"
  by (induction cs) (simp_all add: case_prod_beta)

lemma coatings_masses_snd:
  "snd (coatings_masses ext cs) = map (\<lambda>c. snd (coating_mass ext c)) cs"
  by (induction cs) (simp_all add: case_prod_beta)

lemma coatings_masses_again:
  "coatings_masses ext (snd (coatings_masses ext cs)) = coatings_masses ext cs"
proof (rule prod_eqI)
  show "fst (coatings_masses ext (snd (coatings_masses ext cs))) = fst (coatings_masses ext cs)"
    by (simp add: coatings_masses_fst coatings_masses_snd coating_mass_again comp_def)
  show "snd (coatings_masses ext (snd (coatings_masses ext cs))) = snd (coatings_masses ext cs)"
    by (simp add: coatings_masses_snd coating_mass_again comp_def)
qed

lemma collect_masses_fst:
  "fst (collect_masses ext st) =
     map spar_mass (spars st) @ map (rib_mass ext) (ribs st) @
     map (\<lambda>c. fst (coating_mass ext c)) (coatings st)"
  by (simp add: collect_masses_def case_prod_beta coatings_masses_fst)

lemma collect_masses_snd:
  "snd (collect_masses ext st) = st\<lparr>coatings := snd (coatings_masses ext (coatings st))\<rparr>"
  by (simp add: collect_masses_def case_prod_beta)

lemma collect_masses_again:
  "fst (collect_masses ext (snd (collect_masses ext st))) = fst (collect_masses ext st)"
  using coatings_masses_again [of ext "coatings st"]
  by (simp add: collect_masses_fst collect_masses_snd coatings_masses_snd coating_mass_again comp_def)

lemma foldl_plus: "foldl (+) a xs = a + sum_list (xs :: real list)"
  by (induction xs arbitrary: a) auto

lemma structure_mass_fst:
  "fst (structure_mass ext st) =
     \<lparr>mass = sum_list (map mass (fst (collect_masses ext st))),
      coordinates = map_ndarray (\<lambda>x. true_divide x (sum_list (map mass (fst (collect_masses ext st)))))
          (np_sum_axis0 (map (\<lambda>p. scale (mass p) (coordinates p)) (fst (collect_masses ext st)))),
      tag = name (surface st)\<rparr>"
proof -
  obtain pms st1 where c1: "collect_masses ext st = (pms, st1)" by (cases "collect_masses ext st")
  obtain pms2 st2 where c2: "collect_masses ext st1 = (pms2, st2)" by (cases "collect_masses ext st1")
  have "pms2 = pms" using collect_masses_again [of ext st] c1 c2 by simp
  then show ?thesis by (simp add: structure_mass_def c1 c2 foldl_plus Let_def)
qed


subsection \<open>Composite mass\<close>




subsection \<open>Order of the elements\<close>

lemma sum_list_mset_cong:
  fixes f :: "'a \<Rightarrow> real"
  assumes "mset xs = mset ys"
  shows "sum_list (map f xs) = sum_list (map f ys)"
proof -
  have "sum_list (map f xs) = sum_mset (image_mset f (mset xs))"
    by (metis mset_map sum_mset_sum_list)
  also have "\<dots> = sum_mset (image_mset f (mset ys))" using assms by simp
  also have "\<dots> = sum_list (map f ys)" by (metis mset_map sum_mset_sum_list)
  finally show ?thesis .
qed

lemma np_sum_axis0_mset_cong:
  assumes "mset xs = mset ys"
  shows "np_sum_axis0 (map f xs) = np_sum_axis0 (map f ys)"
proof -
  have e: "xs = [] \<longleftrightarrow> ys = []" using assms by (metis mset_zero_iff)
  show ?thesis
    unfolding np_sum_axis0_def
    using e sum_list_mset_cong [OF assms, of "fst \<circ> f"]
      sum_list_mset_cong [OF assms, of "(fst \<circ> snd) \<circ> f"]
      sum_list_mset_cong [OF assms, of "(snd \<circ> snd) \<circ> f"]
    by (simp add: comp_def)
qed

text \<open>
  C7: two structures on surfaces of the same name whose collected point masses are
  permutations of each other have the same composite: the same total mass and the
  same coordinates.
\<close>

theorem order_invariance:
  assumes "mset (fst (collect_masses ext st)) = mset (fst (collect_masses ext st'))"
    and "name (surface st) = name (surface st')"
  shows "fst (structure_mass ext st) = fst (structure_mass ext st')"
  unfolding structure_mass_fst
  using sum_list_mset_cong [OF assms(1), of mass]
    np_sum_axis0_mset_cong [OF assms(1), of "\<lambda>p. scale (mass p) (coordinates p)"] assms(2)
  by simp

theorem order_invariance_witness:
  "mset (fst (collect_masses sample_externals two_spars)) =
     mset (fst (collect_masses sample_externals (two_spars\<lparr>spars := rev (spars two_spars)\<rparr>))) \<and>
   name (surface two_spars) = name (surface (two_spars\<lparr>spars := rev (spars two_spars)\<rparr>)) \<and>
   fst (structure_mass sample_externals two_spars) =
     fst (structure_mass sample_externals (two_spars\<lparr>spars := rev (spars two_spars)\<rparr>))"
proof -
  have h: "mset (fst (collect_masses sample_externals two_spars)) =
     mset (fst (collect_masses sample_externals (two_spars\<lparr>spars := rev (spars two_spars)\<rparr>)))"
    by (simp add: collect_masses_fst)
  show ?thesis using h order_invariance [OF h] by simp
qed

subsection \<open>No elements\<close>

text \<open>
  C3, as amended: for a structure without spars, ribs and coatings the mass property
  raises nothing: it returns a Point Mass of mass 0 whose coordinates are the \<open>nan\<close>
  of dividing the scalar sum 0.0 by the total 0, tagged with the name of the
  surface, and leaves the structure as it was.
\<close>

theorem empty_structure_mass:
  assumes "spars st = []" "ribs st = []" "coatings st = []"
  shows "structure_mass ext st = (\<lparr>mass = 0, coordinates = Scalar NaN, tag = name (surface st)\<rparr>, st)"
  using assms
  by (cases st) (simp add: structure_mass_def collect_masses_def np_sum_axis0_def true_divide_def)

theorem empty_structure_mass_witness:
  "spars (SurfaceStructure_init (sample_surface [0, 1]) [(''colour'', PStr ''red'')]) = [] \<and>
   ribs (SurfaceStructure_init (sample_surface [0, 1]) [(''colour'', PStr ''red'')]) = [] \<and>
   coatings (SurfaceStructure_init (sample_surface [0, 1]) [(''colour'', PStr ''red'')]) = [] \<and>
   mass (fst (structure_mass sample_externals
          (SurfaceStructure_init (sample_surface [0, 1]) [(''colour'', PStr ''red'')]))) = 0"
  using empty_structure_mass [of "SurfaceStructure_init (sample_surface [0, 1]) [(''colour'', PStr ''red'')]" sample_externals]
  by (simp add: SurfaceStructure_init_def)

text \<open>C3 as stated (an error, never a zero mass) does not hold on an empty structure.\<close>

theorem empty_structure_returns_nan:
  "fst (structure_mass sample_externals (SurfaceStructure_init (sample_surface [0, 1]) [])) =
     \<lparr>mass = 0, coordinates = Scalar NaN, tag = ''wing''\<rparr>"
  by (simp add: structure_mass_def collect_masses_def np_sum_axis0_def true_divide_def
        SurfaceStructure_init_def sample_surface_def)

section \<open>The cached centroid and area of a coating\<close>

lemma read_coating_cached:
  assumes "centroid_area_cache c = Some v"
  shows "read_coating ext c r = (view v (coating_thickness c) (coating_material c) r, c)"
  using centroid_area_cached [OF assms, of ext]
  by (cases r) (simp_all add: coating_centroid_def coating_area_def coating_mass_def case_prod_beta)

lemma read_all_cached:
  assumes "centroid_area_cache c = Some v"
  shows "read_all ext c rs = (map (view v (coating_thickness c) (coating_material c)) rs, c)"
  by (induction rs) (simp_all add: read_coating_cached [OF assms])

lemma read_coating_first:
  assumes "centroid_area_cache c = None"
  shows "read_coating ext c r =
     (view (surface_centroid_area ext (xx (coating_surface c)) (yy (coating_surface c))
              (zz (coating_surface c))) (coating_thickness c) (coating_material c) r,
      c\<lparr>centroid_area_cache :=
           Some (surface_centroid_area ext (xx (coating_surface c)) (yy (coating_surface c))
                   (zz (coating_surface c))),
        evaluations := evaluations c + 1\<rparr>)"
  using assms
  by (cases r)
     (simp_all add: coating_centroid_def coating_area_def coating_mass_def centroid_area_def
        Let_def case_prod_beta)

lemma read_all_from_empty:
  assumes "centroid_area_cache c = None"
  shows "fst (read_all ext c rs) =
           map (view (surface_centroid_area ext (xx (coating_surface c)) (yy (coating_surface c))
                  (zz (coating_surface c))) (coating_thickness c) (coating_material c)) rs \<and>
         evaluations (snd (read_all ext c rs)) = evaluations c + min 1 (length rs)"
proof (cases rs)
  case Nil
  then show ?thesis by simp
next
  case (Cons r rs')
  let ?v = "surface_centroid_area ext (xx (coating_surface c)) (yy (coating_surface c))
              (zz (coating_surface c))"
  let ?c1 = "c\<lparr>centroid_area_cache := Some ?v, evaluations := evaluations c + 1\<rparr>"
  have rest: "read_all ext ?c1 rs' =
                (map (view ?v (coating_thickness c) (coating_material c)) rs', ?c1)"
    using read_all_cached [of ?c1 ?v ext rs'] by simp
  show ?thesis
    using rest by (simp add: Cons read_coating_first [OF assms])
qed

text \<open>
  C8: on a newly constructed coating, any sequence of reads of \<open>centroid\<close>, \<open>area\<close>
  and \<open>mass\<close> returns views of the one pair that \<open>surface_centroid_area\<close> gives for
  the mesh, so repeated reads are identical, and the body of \<open>_centroid_area\<close> has
  run once after the first read and never again (not at all without a read).
\<close>

theorem coating_computed_once:
  "fst (read_all ext (SurfaceCoating_init s t m) rs) =
     map (view (surface_centroid_area ext (xx s) (yy s) (zz s)) t m) rs \<and>
   evaluations (snd (read_all ext (SurfaceCoating_init s t m) rs)) = min 1 (length rs)"
  using read_all_from_empty [of "SurfaceCoating_init s t m" ext rs]
  by (simp add: SurfaceCoating_init_def)

section \<open>Construction of the structural model\<close>
















section \<open>Falsy configuration entries\<close>

lemma dict_get_Cons: "dict_get ((k, v) # c) k' = (if k' = k then v else dict_get c k')"
  by (simp add: dict_get_def)

lemma map_of_drop_key: "map_of (filter (\<lambda>kv. fst kv \<noteq> k) c) k' = (if k' = k then None else map_of c k')"
  by (induction c) auto

lemma dict_get_drop_key:
  "dict_get (filter (\<lambda>kv. fst kv \<noteq> k) c) k' = (if k' = k then PNone else dict_get c k')"
  by (simp add: dict_get_def map_of_drop_key)

lemma foldl_add_rib: "foldl add_rib st rs = st\<lparr>ribs := ribs st @ rs\<rparr>"
  by (induction rs arbitrary: st) (simp_all add: add_rib_def)

lemma init_main_spar_config:
  assumes "\<And>key. truthy (dict_get c1 key) \<or> truthy (dict_get c2 key) \<Longrightarrow> dict_get c1 key = dict_get c2 key"
  shows "init_main_spar ext (st\<lparr>config := c1\<rparr>) =
         map_sum id (config_update (\<lambda>_. c1)) (init_main_spar ext (st\<lparr>config := c2\<rparr>))"
  using assms [of "''main_spar''"]
  by (auto simp: init_main_spar_def Let_def add_spar_def split: sum.splits)

lemma init_secondary_spar_config:
  assumes "\<And>key. truthy (dict_get c1 key) \<or> truthy (dict_get c2 key) \<Longrightarrow> dict_get c1 key = dict_get c2 key"
  shows "init_secondary_spar ext (st\<lparr>config := c1\<rparr>) =
         map_sum id (config_update (\<lambda>_. c1)) (init_secondary_spar ext (st\<lparr>config := c2\<rparr>))"
  using assms [of "''secondary_spar''"]
  by (auto simp: init_secondary_spar_def Let_def add_spar_def split: sum.splits)

lemma init_ribs_config:
  assumes "\<And>key. truthy (dict_get c1 key) \<or> truthy (dict_get c2 key) \<Longrightarrow> dict_get c1 key = dict_get c2 key"
  shows "init_ribs ext (st\<lparr>config := c1\<rparr>) =
         map_sum id (config_update (\<lambda>_. c1)) (init_ribs ext (st\<lparr>config := c2\<rparr>))"
  using assms [of "''ribs''"]
  by (auto simp: init_ribs_def Let_def foldl_add_rib split: sum.splits)

lemma init_coating_config:
  assumes "\<And>key. truthy (dict_get c1 key) \<or> truthy (dict_get c2 key) \<Longrightarrow> dict_get c1 key = dict_get c2 key"
  shows "init_coating (st\<lparr>config := c1\<rparr>) =
         map_sum id (config_update (\<lambda>_. c1)) (init_coating (st\<lparr>config := c2\<rparr>))"
  using assms [of "''surface_coating''"]
  by (auto simp: init_coating_def Let_def add_coating_def split: sum.splits)


lemma init_main_spar_fields:
  "init_main_spar ext st = Inr st' \<Longrightarrow>
   config st' = config st \<and> ribs st' = ribs st \<and> coatings st' = coatings st"
  by (auto simp: init_main_spar_def Let_def add_spar_def split: sum.splits if_splits)

lemma init_secondary_spar_fields:
  "init_secondary_spar ext st = Inr st' \<Longrightarrow>
   config st' = config st \<and> ribs st' = ribs st \<and> coatings st' = coatings st"
  by (auto simp: init_secondary_spar_def Let_def add_spar_def split: sum.splits if_splits)

lemma init_ribs_fields:
  "init_ribs ext st = Inr st' \<Longrightarrow>
   config st' = config st \<and> coatings st' = coatings st \<and>
   (\<not> truthy (dict_get (config st) ''ribs'') \<longrightarrow> ribs st' = ribs st)"
  by (auto simp: init_ribs_def Let_def foldl_add_rib split: sum.splits if_splits)

lemma init_coating_fields:
  "init_coating st = Inr st' \<Longrightarrow>
   config st' = config st \<and> ribs st' = ribs st \<and>
   (\<not> truthy (dict_get (config st) ''surface_coating'') \<longrightarrow> coatings st' = coatings st)"
  by (auto simp: init_coating_def Let_def add_coating_def split: sum.splits if_splits)

lemma config_update_same: "config s = c \<Longrightarrow> s\<lparr>config := c\<rparr> = s"
  by (cases s) simp

lemma initialize_structure_config:
  assumes "\<And>key. truthy (dict_get c1 key) \<or> truthy (dict_get c2 key) \<Longrightarrow> dict_get c1 key = dict_get c2 key"
  shows "initialize_structure ext (st\<lparr>config := c1\<rparr>) =
         map_sum id (config_update (\<lambda>_. c1)) (initialize_structure ext (st\<lparr>config := c2\<rparr>))"
proof (cases "init_main_spar ext (st\<lparr>config := c2\<rparr>)")
  case (Inl e)
  then show ?thesis
    by (simp add: initialize_structure_def init_main_spar_config [OF assms])
next
  case s1: (Inr s1)
  then have c1: "s1\<lparr>config := c2\<rparr> = s1"
    using init_main_spar_fields [OF s1] by (simp add: config_update_same)
  have m1: "init_main_spar ext (st\<lparr>config := c1\<rparr>) = Inr (s1\<lparr>config := c1\<rparr>)"
    by (simp add: init_main_spar_config [OF assms] s1)
  have e2: "init_secondary_spar ext (s1\<lparr>config := c1\<rparr>) =
            map_sum id (config_update (\<lambda>_. c1)) (init_secondary_spar ext s1)"
    using init_secondary_spar_config [OF assms, of ext s1] by (simp add: c1)
  show ?thesis
  proof (cases "init_secondary_spar ext s1")
    case (Inl e)
    then show ?thesis by (simp add: initialize_structure_def m1 s1 e2)
  next
    case s2: (Inr s2)
    then have c2: "s2\<lparr>config := c2\<rparr> = s2"
      using init_secondary_spar_fields [OF s2] init_main_spar_fields [OF s1]
      by (simp add: config_update_same)
    have e3: "init_ribs ext (s2\<lparr>config := c1\<rparr>) =
              map_sum id (config_update (\<lambda>_. c1)) (init_ribs ext s2)"
      using init_ribs_config [OF assms, of ext s2] by (simp add: c2)
    show ?thesis
    proof (cases "init_ribs ext s2")
      case (Inl e)
      then show ?thesis by (simp add: initialize_structure_def m1 s1 e2 s2 e3)
    next
      case s3: (Inr s3)
      then have c3: "s3\<lparr>config := c2\<rparr> = s3"
        using init_ribs_fields [OF s3] init_secondary_spar_fields [OF s2]
          init_main_spar_fields [OF s1]
        by (simp add: config_update_same)
      have e4: "init_coating (s3\<lparr>config := c1\<rparr>) =
                map_sum id (config_update (\<lambda>_. c1)) (init_coating s3)"
        using init_coating_config [OF assms, of s3] by (simp add: c3)
      show ?thesis by (simp add: initialize_structure_def m1 s1 e2 s2 e3 s3 e4)
    qed
  qed
qed

lemma falsy_entry_config:
  assumes "\<not> truthy v"
  shows "initialize_structure ext (st\<lparr>config := (k, v) # c\<rparr>) =
         map_sum id (config_update (\<lambda>_. (k, v) # c))
           (initialize_structure ext (st\<lparr>config := filter (\<lambda>kv. fst kv \<noteq> k) c\<rparr>))"
proof (rule initialize_structure_config)
  fix key
  assume "truthy (dict_get ((k, v) # c) key) \<or> truthy (dict_get (filter (\<lambda>kv. fst kv \<noteq> k) c) key)"
  then show "dict_get ((k, v) # c) key = dict_get (filter (\<lambda>kv. fst kv \<noteq> k) c) key"
    using assms by (auto simp: dict_get_Cons dict_get_drop_key split: if_splits)
qed

lemma calculate_ribs_main: "calculate_ribs (ext\<lparr>create_main_spar := f\<rparr>) = calculate_ribs ext"
  by (intro ext) (simp add: calculate_ribs_def cong: sum.case_cong)

lemma calculate_ribs_secondary: "calculate_ribs (ext\<lparr>create_spar := f\<rparr>) = calculate_ribs ext"
  by (intro ext) (simp add: calculate_ribs_def cong: sum.case_cong)

lemma calculate_ribs_kw_main: "calculate_ribs_kw (ext\<lparr>create_main_spar := f\<rparr>) = calculate_ribs_kw ext"
  by (intro ext) (simp add: calculate_ribs_kw_def calculate_ribs_main cong: option.case_cong if_cong)

lemma calculate_ribs_kw_secondary: "calculate_ribs_kw (ext\<lparr>create_spar := f\<rparr>) = calculate_ribs_kw ext"
  by (intro ext) (simp add: calculate_ribs_kw_def calculate_ribs_secondary cong: option.case_cong if_cong)

lemma init_ribs_main: "init_ribs (ext\<lparr>create_main_spar := f\<rparr>) = init_ribs ext"
  by (intro ext) (simp add: init_ribs_def calculate_ribs_kw_main cong: sum.case_cong if_cong)

lemma init_ribs_secondary: "init_ribs (ext\<lparr>create_spar := f\<rparr>) = init_ribs ext"
  by (intro ext) (simp add: init_ribs_def calculate_ribs_kw_secondary cong: sum.case_cong if_cong)

lemma init_secondary_spar_main:
  "init_secondary_spar (ext\<lparr>create_main_spar := f\<rparr>) = init_secondary_spar ext"
  by (intro ext) (simp add: init_secondary_spar_def cong: sum.case_cong if_cong)

lemma init_main_spar_secondary:
  "init_main_spar (ext\<lparr>create_spar := f\<rparr>) = init_main_spar ext"
  by (intro ext) (simp add: init_main_spar_def cong: sum.case_cong if_cong)

lemma main_spar_factory_unused:
  assumes "\<not> truthy (dict_get (config st) ''main_spar'')"
  shows "initialize_structure (ext\<lparr>create_main_spar := f\<rparr>) st = initialize_structure ext st"
proof -
  have "init_main_spar (ext\<lparr>create_main_spar := f\<rparr>) st = init_main_spar ext st"
    using assms by (simp add: init_main_spar_def Let_def)
  then show ?thesis
    by (simp add: initialize_structure_def init_secondary_spar_main init_ribs_main cong: sum.case_cong)
qed

lemma secondary_spar_factory_unused:
  assumes "\<not> truthy (dict_get (config st) ''secondary_spar'')"
  shows "initialize_structure (ext\<lparr>create_spar := f\<rparr>) st = initialize_structure ext st"
proof (cases "init_main_spar ext st")
  case (Inl e)
  then show ?thesis by (simp add: initialize_structure_def init_main_spar_secondary)
next
  case (Inr s1)
  then have "\<not> truthy (dict_get (config s1) ''secondary_spar'')"
    using assms init_main_spar_fields [OF Inr] by simp
  then have "init_secondary_spar (ext\<lparr>create_spar := f\<rparr>) s1 = init_secondary_spar ext s1"
    by (simp add: init_secondary_spar_def Let_def)
  then show ?thesis
    by (simp add: initialize_structure_def init_main_spar_secondary Inr init_ribs_secondary cong: sum.case_cong)
qed

lemma ribs_untouched:
  assumes "\<not> truthy (dict_get (config st) ''ribs'')" "initialize_structure ext st = Inr st'"
  shows "ribs st' = ribs st"
proof -
  from assms(2) obtain s1 s2 s3 where
    s: "init_main_spar ext st = Inr s1" "init_secondary_spar ext s1 = Inr s2"
       "init_ribs ext s2 = Inr s3" "init_coating s3 = Inr st'"
    by (auto simp: initialize_structure_def split: sum.splits)
  show ?thesis
    using init_main_spar_fields [OF s(1)] init_secondary_spar_fields [OF s(2)]
      init_ribs_fields [OF s(3)] init_coating_fields [OF s(4)] assms(1)
    by simp
qed

lemma coatings_untouched:
  assumes "\<not> truthy (dict_get (config st) ''surface_coating'')" "initialize_structure ext st = Inr st'"
  shows "coatings st' = coatings st"
proof -
  from assms(2) obtain s1 s2 s3 where
    s: "init_main_spar ext st = Inr s1" "init_secondary_spar ext s1 = Inr s2"
       "init_ribs ext s2 = Inr s3" "init_coating s3 = Inr st'"
    by (auto simp: initialize_structure_def split: sum.splits)
  show ?thesis
    using init_main_spar_fields [OF s(1)] init_secondary_spar_fields [OF s(2)]
      init_ribs_fields [OF s(3)] init_coating_fields [OF s(4)] assms(1)
    by simp
qed


text \<open>
  C10: a configuration in which a key is bound to a falsy value (\<open>None\<close>, an empty
  dictionary, zero, an empty string, \<open>False\<close>) initialises a structure exactly as the
  configuration without that key does: the same error, or the same structure up to
  the stored configuration.  For \<open>main_spar\<close> and \<open>secondary_spar\<close> the outcome does
  not depend on the spar factory of that key, so the factory is not called; for
  \<open>ribs\<close> and \<open>surface_coating\<close> the ribs and the coatings stay as they were.
\<close>

theorem falsy_entry_like_absent:
  assumes "\<not> truthy v"
  shows "initialize_structure ext (st\<lparr>config := (k, v) # c\<rparr>) =
           map_sum id (config_update (\<lambda>_. (k, v) # c))
             (initialize_structure ext (st\<lparr>config := filter (\<lambda>kv. fst kv \<noteq> k) c\<rparr>)) \<and>
         (k = ''main_spar'' \<longrightarrow>
            initialize_structure (ext\<lparr>create_main_spar := f\<rparr>) (st\<lparr>config := (k, v) # c\<rparr>) =
            initialize_structure ext (st\<lparr>config := (k, v) # c\<rparr>)) \<and>
         (k = ''secondary_spar'' \<longrightarrow>
            initialize_structure (ext\<lparr>create_spar := f\<rparr>) (st\<lparr>config := (k, v) # c\<rparr>) =
            initialize_structure ext (st\<lparr>config := (k, v) # c\<rparr>)) \<and>
         (k = ''ribs'' \<longrightarrow>
            (\<forall>st'. initialize_structure ext (st\<lparr>config := (k, v) # c\<rparr>) = Inr st' \<longrightarrow>
                   ribs st' = ribs st)) \<and>
         (k = ''surface_coating'' \<longrightarrow>
            (\<forall>st'. initialize_structure ext (st\<lparr>config := (k, v) # c\<rparr>) = Inr st' \<longrightarrow>
                   coatings st' = coatings st))"
proof -
  let ?st = "st\<lparr>config := (k, v) # c\<rparr>"
  have g: "\<not> truthy (dict_get (config ?st) k)"
    using assms by (simp add: dict_get_Cons)
  have 1: "k = ''main_spar'' \<longrightarrow>
      initialize_structure (ext\<lparr>create_main_spar := f\<rparr>) ?st = initialize_structure ext ?st"
    using g main_spar_factory_unused [where st = ?st and ext = ext and f = f] by blast
  have 2: "k = ''secondary_spar'' \<longrightarrow>
      initialize_structure (ext\<lparr>create_spar := f\<rparr>) ?st = initialize_structure ext ?st"
    using g secondary_spar_factory_unused [where st = ?st and ext = ext and f = f] by blast
  have 3: "k = ''ribs'' \<longrightarrow>
      (\<forall>st'. initialize_structure ext ?st = Inr st' \<longrightarrow> ribs st' = ribs st)"
    using g ribs_untouched [where st = ?st and ext = ext] by auto
  have 4: "k = ''surface_coating'' \<longrightarrow>
      (\<forall>st'. initialize_structure ext ?st = Inr st' \<longrightarrow> coatings st' = coatings st)"
    using g coatings_untouched [where st = ?st and ext = ext] by auto
  show ?thesis using falsy_entry_config [OF assms] 1 2 3 4 by blast
qed

lemma sample_init_falsy:
  "\<not> truthy v \<Longrightarrow>
   initialize_structure sample_externals ((SurfaceStructure_init s [])\<lparr>config := [(k, v)]\<rparr>)
     = Inr ((SurfaceStructure_init s [])\<lparr>config := [(k, v)]\<rparr>)"
  by (simp add: initialize_structure_def init_main_spar_def init_secondary_spar_def init_ribs_def
      init_coating_def dict_get_def SurfaceStructure_init_def)

theorem falsy_entry_like_absent_witness:
  "\<not> truthy (PDict []) \<and> \<not> truthy PNone \<and> \<not> truthy (PFloat 0) \<and> \<not> truthy (PStr []) \<and>
   initialize_structure (sample_externals\<lparr>create_main_spar := (\<lambda>s kw. Inl TypeError)\<rparr>)
     ((SurfaceStructure_init (sample_surface [0, 1]) [])\<lparr>config := [(''main_spar'', PDict [])]\<rparr>)
     = Inr ((SurfaceStructure_init (sample_surface [0, 1]) [])\<lparr>config := [(''main_spar'', PDict [])]\<rparr>) \<and>
   initialize_structure (sample_externals\<lparr>create_spar := (\<lambda>s kw. Inl TypeError)\<rparr>)
     ((SurfaceStructure_init (sample_surface [0, 1]) [])\<lparr>config := [(''secondary_spar'', PNone)]\<rparr>)
     = Inr ((SurfaceStructure_init (sample_surface [0, 1]) [])\<lparr>config := [(''secondary_spar'', PNone)]\<rparr>) \<and>
   initialize_structure sample_externals
     ((SurfaceStructure_init (sample_surface [0, 1]) [])\<lparr>config := [(''ribs'', PFloat 0)]\<rparr>)
     = Inr ((SurfaceStructure_init (sample_surface [0, 1]) [])\<lparr>config := [(''ribs'', PFloat 0)]\<rparr>) \<and>
   initialize_structure sample_externals
     ((SurfaceStructure_init (sample_surface [0, 1]) [])\<lparr>config := [(''surface_coating'', PStr [])]\<rparr>)
     = Inr ((SurfaceStructure_init (sample_surface [0, 1]) [])\<lparr>config := [(''surface_coating'', PStr [])]\<rparr>)"
proof -
  let ?st = "SurfaceStructure_init (sample_surface [0, 1]) []"
  have a: "\<not> truthy (PDict [])" and b: "\<not> truthy PNone" and c: "\<not> truthy (PFloat 0)"
    and d: "\<not> truthy (PStr [])" by simp_all
  note A = falsy_entry_like_absent [OF a, where ext = sample_externals and st = ?st and k = "''main_spar''" and c = "[]" and f = "\<lambda>s kw. Inl TypeError"]
  note B = falsy_entry_like_absent [OF b, where ext = sample_externals and st = ?st and k = "''secondary_spar''" and c = "[]" and f = "\<lambda>s kw. Inl TypeError"]
  note C = falsy_entry_like_absent [OF c, where ext = sample_externals and st = ?st and k = "''ribs''" and c = "[]"]
  note D = falsy_entry_like_absent [OF d, where ext = sample_externals and st = ?st and k = "''surface_coating''" and c = "[]"]
  have 1: "initialize_structure (sample_externals\<lparr>create_main_spar := (\<lambda>s kw. Inl TypeError)\<rparr>)
     (?st\<lparr>config := [(''main_spar'', PDict [])]\<rparr>) = Inr (?st\<lparr>config := [(''main_spar'', PDict [])]\<rparr>)"
    using A sample_init_falsy [OF a] by simp
  have 2: "initialize_structure (sample_externals\<lparr>create_spar := (\<lambda>s kw. Inl TypeError)\<rparr>)
     (?st\<lparr>config := [(''secondary_spar'', PNone)]\<rparr>) = Inr (?st\<lparr>config := [(''secondary_spar'', PNone)]\<rparr>)"
    using B sample_init_falsy [OF b] by simp
  have e: "initialize_structure sample_externals (?st\<lparr>config := []\<rparr>) = Inr (?st\<lparr>config := []\<rparr>)"
    by (simp add: initialize_structure_def init_main_spar_def init_secondary_spar_def init_ribs_def
        init_coating_def dict_get_def SurfaceStructure_init_def)
  have 3: "initialize_structure sample_externals (?st\<lparr>config := [(''ribs'', PFloat 0)]\<rparr>)
             = Inr (?st\<lparr>config := [(''ribs'', PFloat 0)]\<rparr>)"
    using C e by simp
  have 4: "initialize_structure sample_externals (?st\<lparr>config := [(''surface_coating'', PStr [])]\<rparr>)
             = Inr (?st\<lparr>config := [(''surface_coating'', PStr [])]\<rparr>)"
    using D e by simp
  show ?thesis using 1 2 3 4 by simp
qed

end
